theory Spec2Isabelle
  imports Complex_Main
begin

section \<open>Numbers, rounding and dictionaries\<close>

text \<open>
  Python floats are modelled as exact reals: the development is about the formulas and the
  threshold logic of the services, not about binary rounding error. NaN and the infinities
  have no counterpart; the one place where the source divides by a value that can be zero
  (the anomaly score) is written out below.

  \<open>py_round n x\<close> is Python's \<open>round(x, n)\<close>: the nearest multiple of \<open>10^-n\<close>, a tie
  going to the even neighbour.
\<close>

definition round_half_even :: "real \<Rightarrow> int" where
  "round_half_even y =
     (let f = \<lfloor>y\<rfloor>; d = y - of_int f
      in if d < 1 / 2 then f
         else if 1 / 2 < d then f + 1
         else if even f then f else f + 1)"

definition py_round :: "nat \<Rightarrow> real \<Rightarrow> real" where
  "py_round n x = of_int (round_half_even (x * 10 ^ n)) / 10 ^ n"

text \<open>
  The \<open>inputs\<close> dictionary of \<open>predict_output\<close>: field name to number.
  \<open>get_num d k dflt\<close> is \<open>d.get(k, dflt)\<close>.
\<close>

type_synonym inputs = "string \<rightharpoonup> real"

definition get_num :: "inputs \<Rightarrow> string \<Rightarrow> real \<Rightarrow> real" where
  "get_num d k dflt = (case d k of None \<Rightarrow> dflt | Some v \<Rightarrow> v)"

text \<open>
  Python's \<open>x / y\<close> on floats raises \<open>ZeroDivisionError\<close> when \<open>y\<close> is zero; HOL's
  \<open>x / 0\<close> is 0. Where the source divides by a value that is not a non-zero constant, the
  division is \<open>py_truediv\<close>, and the exception is a result.
\<close>

datatype py_error = ZeroDivisionError

definition py_truediv :: "real \<Rightarrow> real \<Rightarrow> py_error + real" where
  "py_truediv x y = (if y = 0 then Inl ZeroDivisionError else Inr (x / y))"

section \<open>ml\_model.py: SolarPerformanceModel\<close>

subsection \<open>Constant tables of the constructor\<close>

definition feature_importance :: "(string \<times> real) list" where
  "feature_importance =
     [(''irradiance'', 0.35), (''panel_temp'', 0.22), (''inverter_eff'', 0.15),
      (''soiling_index'', 0.12), (''battery_soc'', 0.08), (''ambient_temp'', 0.04),
      (''wind_speed'', 0.02), (''tilt'', 0.01), (''azimuth'', 0.01), (''pr_baseline'', 0.0)]"

text \<open>The entries of \<open>self.thresholds\<close>, one constant per key.\<close>

definition panel_temp_high :: real where "panel_temp_high = 65"
definition panel_temp_critical :: real where "panel_temp_critical = 75"
definition soiling_critical :: real where "soiling_critical = 8.0"
definition inverter_eff_low :: real where "inverter_eff_low = 94.0"
definition battery_soc_low :: real where "battery_soc_low = 20"
definition battery_soc_critical :: real where "battery_soc_critical = 10"
definition deviation_warning :: real where "deviation_warning = 10"
definition deviation_critical :: real where "deviation_critical = 20"

subsection \<open>\_calculate\_fault\_probability\<close>

definition calculate_fault_probability :: "inputs \<Rightarrow> real \<Rightarrow> real" where
  "calculate_fault_probability inp deviation =
     (let fault_score = 0;
          fault_score =
            (if \<bar>deviation\<bar> > deviation_critical then fault_score + 0.4
             else if \<bar>deviation\<bar> > deviation_warning then fault_score + 0.2
             else fault_score);
          panel_temp = get_num inp ''panel_temp'' 35;
          fault_score =
            (if panel_temp > panel_temp_critical then fault_score + 0.3
             else if panel_temp > panel_temp_high then fault_score + 0.1
             else fault_score);
          soiling = get_num inp ''soiling_index'' 2;
          fault_score =
            (if soiling > soiling_critical then fault_score + 0.2 else fault_score);
          inverter_eff = get_num inp ''inverter_eff'' 96;
          fault_score =
            (if inverter_eff < inverter_eff_low then fault_score + 0.1 else fault_score)
      in min 1.0 fault_score)"

subsection \<open>\_get\_top\_influence\_factors\<close>

text \<open>
  \<open>sorted(..., reverse=True)\<close> keeps equal keys in their original order: Python reverses,
  sorts stably and reverses again.
\<close>

definition get_top_influence_factors :: "inputs \<Rightarrow> string list" where
  "get_top_influence_factors inp =
     (let sorted_factors = rev (sort_key snd (rev feature_importance))
      in map fst (take 3 sorted_factors))"

subsection \<open>\_generate\_recommendations\<close>

text \<open>
  A message is an f-string: literal text and interpolated numbers, \<open>Num x\<close> for \<open>{x}\<close>
  and \<open>Num1 x\<close> for \<open>{x:.1f}\<close>. The degree sign and the superscript two of the source
  are given by their UTF-8 bytes.
\<close>

datatype msg_part = Txt string | Num real | Num1 real

definition degree_sign :: string where "degree_sign = [CHR 0xC2, CHR 0xB0]"
definition superscript_two :: string where "superscript_two = [CHR 0xC2, CHR 0xB2]"

record recommendation =
  priority :: string
  msg :: "msg_part list"
  action :: string

definition priority_order :: "string \<Rightarrow> nat" where
  \<comment> \<open>\<open>priority_order.get(x['priority'], 4)\<close>\<close>
  "priority_order p =
     (if p = ''Critical'' then 0 else if p = ''High'' then 1
      else if p = ''Medium'' then 2 else if p = ''Info'' then 3 else 4)"

definition panel_temperature_check :: "inputs \<Rightarrow> recommendation list" where
  "panel_temperature_check inp =
     (let panel_temp = get_num inp ''panel_temp'' 35;
          ambient_temp = get_num inp ''ambient_temp'' 25
      in if panel_temp > panel_temp_critical then
           [\<lparr>priority = ''Critical'',
             msg = [Txt ''Panel over-temperature detected ('', Num panel_temp,
                    Txt (degree_sign @ ''C). Immediate inspection required - possible hotspot or cooling issue.'')],
             action = ''Inspect panels for hotspots, check ventilation, consider tilt adjustment''\<rparr>]
         else if panel_temp > panel_temp_high then
           [\<lparr>priority = ''High'',
             msg = [Txt ''Panel temperature elevated ('', Num panel_temp,
                    Txt (degree_sign @ ''C vs ambient ''), Num ambient_temp,
                    Txt (degree_sign @ ''C). Monitor for efficiency loss.'')],
             action = ''Check for adequate airflow, clean panels if soiled''\<rparr>]
         else [])"

definition soiling_check :: "inputs \<Rightarrow> recommendation list" where
  "soiling_check inp =
     (let soiling = get_num inp ''soiling_index'' 2
      in if soiling > soiling_critical then
           [\<lparr>priority = ''High'',
             msg = [Txt ''Heavy soiling detected ('', Num soiling,
                    Txt ''% loss). Cleaning recommended to restore efficiency.''],
             action = ''Schedule panel cleaning service''\<rparr>]
         else if soiling > 4.0 then
           [\<lparr>priority = ''Medium'',
             msg = [Txt ''Moderate soiling detected ('', Num soiling,
                    Txt ''% loss). Plan cleaning maintenance.''],
             action = ''Add to maintenance schedule''\<rparr>]
         else [])"

definition inverter_efficiency_check :: "inputs \<Rightarrow> recommendation list" where
  "inverter_efficiency_check inp =
     (let inverter_eff = get_num inp ''inverter_eff'' 96;
          baseline_eff = 96.5;
          eff_diff = baseline_eff - inverter_eff
      in if inverter_eff < inverter_eff_low then
           [\<lparr>priority = ''Medium'',
             msg = [Txt ''Inverter efficiency below baseline ('', Num inverter_eff,
                    Txt ''% vs '', Num baseline_eff, Txt ''%, -'', Num1 eff_diff, Txt ''%).''],
             action = ''Check inverter logs, inspect connections, verify AC voltage''\<rparr>]
         else [])"

definition battery_soc_check :: "inputs \<Rightarrow> recommendation list" where
  "battery_soc_check inp =
     (let battery_soc = get_num inp ''battery_soc'' 70
      in if battery_soc < battery_soc_critical then
           [\<lparr>priority = ''Critical'',
             msg = [Txt ''Battery critically low ('', Num battery_soc,
                    Txt ''%). Risk of deep discharge damage.''],
             action = ''Reduce load immediately or connect to grid if available''\<rparr>]
         else if battery_soc < battery_soc_low then
           [\<lparr>priority = ''Medium'',
             msg = [Txt ''Battery SoC low ('', Num battery_soc,
                    Txt ''%). Monitor charging conditions.''],
             action = ''Check solar generation and load management''\<rparr>]
         else
           [\<lparr>priority = ''Info'',
             msg = [Txt ''Battery SoC stable ('', Num battery_soc,
                    Txt ''%). System operating normally.''],
             action = ''Continue monitoring''\<rparr>])"

definition performance_deviation_check :: "real \<Rightarrow> real option \<Rightarrow> recommendation list" where
  "performance_deviation_check deviation actual_output =
     (if actual_output \<noteq> None \<and> deviation < - deviation_critical then
        [\<lparr>priority = ''High'',
          msg = [Txt ''Significant underperformance detected ('', Num1 deviation,
                 Txt ''% below expected). Multiple factors may be contributing.''],
          action = ''Comprehensive system inspection recommended''\<rparr>]
      else if actual_output \<noteq> None \<and> deviation < - deviation_warning then
        [\<lparr>priority = ''Medium'',
          msg = [Txt ''Output below expected ('', Num1 deviation,
                 Txt ''%). Monitor for persistent issues.''],
          action = ''Review system logs and sensor calibration''\<rparr>]
      else [])"

definition low_irradiance_action :: string where
  "low_irradiance_action = ''Normal for low-light conditions (dawn/dusk/cloudy)''"

definition low_irradiance_info :: "inputs \<Rightarrow> recommendation list" where
  "low_irradiance_info inp =
     (let irradiance = get_num inp ''irradiance'' 800
      in if irradiance < 200 then
           [\<lparr>priority = ''Info'',
             msg = [Txt ''Low irradiance conditions ('', Num irradiance,
                    Txt ('' W/m'' @ superscript_two @ ''). Limited generation expected.'')],
             action = low_irradiance_action\<rparr>]
         else [])"

text \<open>
  The list as the six checks have appended to it, in the order of the source, before the
  sort.
\<close>

definition appended_recommendations :: "inputs \<Rightarrow> real \<Rightarrow> real option \<Rightarrow> recommendation list" where
  "appended_recommendations inp deviation actual_output =
     panel_temperature_check inp @ soiling_check inp @ inverter_efficiency_check inp @
     battery_soc_check inp @ performance_deviation_check deviation actual_output @
     low_irradiance_info inp"

text \<open>\<open>list.sort\<close> is stable, as \<open>sort_key\<close> is; \<open>recommendations[:6]\<close> is \<open>take 6\<close>.\<close>

definition generate_recommendations :: "inputs \<Rightarrow> real \<Rightarrow> real option \<Rightarrow> recommendation list" where
  "generate_recommendations inp deviation actual_output =
     (let recommendations = appended_recommendations inp deviation actual_output;
          recommendations = sort_key (\<lambda>x. priority_order (priority x)) recommendations
      in take 6 recommendations)"

subsection \<open>\_calculate\_weather\_impact and \_calculate\_battery\_health\<close>

definition calculate_weather_impact :: "real \<Rightarrow> real \<Rightarrow> real \<Rightarrow> real" where
  "calculate_weather_impact irradiance wind_speed ambient_temp =
     (let irradiance_score = min 100 ((irradiance / 1000) * 100);
          wind_score = (if 2 \<le> wind_speed \<and> wind_speed \<le> 4 then 100
                        else max 0 (100 - \<bar>wind_speed - 3\<bar> * 10));
          temp_score = max 0 (100 - \<bar>ambient_temp - 25\<bar> * 2);
          weather_score = irradiance_score * 0.6 + wind_score * 0.2 + temp_score * 0.2
      in py_round 1 weather_score)"

definition calculate_battery_health :: "real \<Rightarrow> inputs \<Rightarrow> real" where
  "calculate_battery_health soc inp =
     (let health_score = (100::real);
          health_score = (if soc < 20 \<or> soc > 95 then health_score - 10 else health_score);
          health_score =
            (if 30 \<le> soc \<and> soc \<le> 80 then 100
             else if (20 \<le> soc \<and> soc < 30) \<or> (80 < soc \<and> soc \<le> 90) then 95
             else 85)
      in py_round 1 health_score)"

subsection \<open>predict\_output\<close>

text \<open>The local variables of \<open>predict_output\<close> that later steps read.\<close>

definition local_temp_correction :: "inputs \<Rightarrow> real" where
  "local_temp_correction inp =
     (let panel_temp = get_num inp ''panel_temp'' 35;
          temp_correction = 1 - ((panel_temp - 25) * 0.004)
      in max 0.7 (min 1.0 temp_correction))"

definition local_soiling_factor :: "inputs \<Rightarrow> real" where
  "local_soiling_factor inp = 1 - (get_num inp ''soiling_index'' 2.0 / 100)"

definition local_inverter_factor :: "inputs \<Rightarrow> real" where
  "local_inverter_factor inp = get_num inp ''inverter_eff'' 96.0 / 100"

definition local_irradiance_factor :: "inputs \<Rightarrow> real" where
  "local_irradiance_factor inp = get_num inp ''irradiance'' 0 / 1000"

definition local_predicted_output :: "inputs \<Rightarrow> real" where
  "local_predicted_output inp =
     get_num inp ''system_capacity'' 100 * local_irradiance_factor inp *
     get_num inp ''pr_baseline'' 0.80 * local_temp_correction inp *
     local_soiling_factor inp * local_inverter_factor inp"

text \<open>
  The block that calculates the deviation, from the actual output (\<open>None\<close> when the key is
  absent) and the predicted output. Its division is the one place of \<open>predict_output\<close>
  that can raise on numbers.
\<close>

definition deviation_calculation :: "real option \<Rightarrow> real \<Rightarrow> py_error + real" where
  "deviation_calculation actual_output predicted_output =
     (let deviation = 0
      in case actual_output of
           None \<Rightarrow> Inr deviation
         | Some a \<Rightarrow>
             (if predicted_output > 0 then
                (case py_truediv (a - predicted_output) predicted_output of
                   Inl e \<Rightarrow> Inl e
                 | Inr q \<Rightarrow> Inr (q * 100))
              else Inr 0))"

text \<open>
  The statements after that block read the value it has returned. \<open>projr\<close> says nothing
  of a result that is an exception: what is proved of \<open>local_deviation\<close> below rests on the
  proof that the block returns.
\<close>

definition local_deviation :: "inputs \<Rightarrow> real" where
  "local_deviation inp =
     projr (deviation_calculation (inp ''actual_output'') (local_predicted_output inp))"

record performance_metrics =
  temp_correction :: real
  soiling_factor :: real
  inverter_factor :: real
  irradiance_factor :: real

record prediction =
  predicted_output :: real
  actual_output :: real
  deviation :: real
  fault_prob :: real
  top_factors :: "string list"
  recommendations :: "recommendation list"
  weather_impact_score :: real
  battery_health_score :: real
  metrics :: performance_metrics

definition predict_output :: "inputs \<Rightarrow> prediction" where
  "predict_output inp =
     (let irradiance = get_num inp ''irradiance'' 0;
          ambient_temp = get_num inp ''ambient_temp'' 25;
          battery_soc = get_num inp ''battery_soc'' 70;
          wind_speed = get_num inp ''wind_speed'' 2.0;
          actual = inp ''actual_output'';
          predicted = local_predicted_output inp;
          dev = local_deviation inp;
          fault = calculate_fault_probability inp dev;
          factors = get_top_influence_factors inp;
          recs = generate_recommendations inp dev actual;
          weather_impact = calculate_weather_impact irradiance wind_speed ambient_temp;
          battery_health = calculate_battery_health battery_soc inp
      in \<lparr>predicted_output = py_round 2 predicted,
          actual_output = (case actual of Some a \<Rightarrow> a | None \<Rightarrow> predicted),
          deviation = py_round 2 dev,
          fault_prob = py_round 3 fault,
          top_factors = factors,
          recommendations = recs,
          weather_impact_score = weather_impact,
          battery_health_score = battery_health,
          metrics =
            \<lparr>temp_correction = py_round 3 (local_temp_correction inp),
             soiling_factor = py_round 3 (local_soiling_factor inp),
             inverter_factor = py_round 3 (local_inverter_factor inp),
             irradiance_factor = py_round 3 (local_irradiance_factor inp)\<rparr>\<rparr>)"

section \<open>ai-analysis-service/app.py: the Flask endpoints\<close>

text \<open>
  A request body of \<open>/api/ai_analysis\<close>, and one element of \<open>sites\<close> in a batch request:
  both keys are optional in the JSON. An error response is its message and HTTP status.
  With numbers for values \<open>predict_output\<close> raises nothing, so the handlers for an
  exception (status 500, and the per-site \<open>error\<close> entry of the batch) have no branch here.
\<close>

record site_data =
  site_id :: "string option"
  site_inputs :: "inputs option"

record site_result =
  result :: prediction
  result_site_id :: string
  status :: "string option"

definition required_fields :: "string list" where
  "required_fields = [''irradiance'', ''ambient_temp'', ''panel_temp'']"

definition analyze_performance :: "site_data option \<Rightarrow> (string \<times> nat) + site_result" where
  "analyze_performance data =
     (case data of
        None \<Rightarrow> Inl (''Missing inputs in request body'', 400)
      | Some d \<Rightarrow>
          (case site_inputs d of
             None \<Rightarrow> Inl (''Missing inputs in request body'', 400)
           | Some inp \<Rightarrow>
               (let sid = (case site_id d of None \<Rightarrow> ''unknown'' | Some s \<Rightarrow> s)
                in case filter (\<lambda>field. inp field = None) required_fields of
                     field # _ \<Rightarrow> Inl (''Missing required field: '' @ field, 400)
                   | [] \<Rightarrow>
                       Inr \<lparr>result = predict_output inp, result_site_id = sid,
                            status = None\<rparr>)))"

record batch_response =
  results :: "site_result list"
  total :: nat
  successful :: nat

definition batch_analyze :: "site_data list option \<Rightarrow> (string \<times> nat) + batch_response" where
  "batch_analyze data =
     (case data of
        None \<Rightarrow> Inl (''Missing sites array in request body'', 400)
      | Some sites \<Rightarrow>
          (let rs = map (\<lambda>sd.
                      let sid = (case site_id sd of None \<Rightarrow> ''unknown'' | Some s \<Rightarrow> s);
                          inp = (case site_inputs sd of None \<Rightarrow> Map.empty | Some i \<Rightarrow> i)
                      in \<lparr>result = predict_output inp, result_site_id = sid,
                          status = Some ''success''\<rparr>) sites
           in Inr \<lparr>results = rs, total = length rs,
                   successful = length (filter (\<lambda>r. status r = Some ''success'') rs)\<rparr>))"

section \<open>ai/main.py: forecasting and anomaly detection\<close>

subsection \<open>Exceptions\<close>

text \<open>
  The exceptions the two pipelines can raise. The detail of an \<open>HTTPException\<close> is a
  literal message or \<open>str(e)\<close> of a caught exception, kept symbolic as \<open>Str e\<close>.
\<close>

datatype exn = HTTPException nat detail | ValueError | IndexError | OverflowError
  and detail = Msg string | Str exn

subsection \<open>simple\_seasonal\_forecast\<close>

record TimeSeriesPoint =
  ts :: string
  ghi_wm2 :: real
  air_temp_c :: real
  wind_ms :: real
  ac_kw :: real

record forecast_point =
  date :: int
  ac_kw_hat :: real
  lower_bound :: real
  upper_bound :: real

definition py_range_step :: "nat \<Rightarrow> nat \<Rightarrow> nat \<Rightarrow> nat list" where
  \<comment> \<open>\<open>range(start, stop, step)\<close> for a positive step\<close>
  "py_range_step start stop step =
     map (\<lambda>k. start + step * k) [0 ..< (stop - start + step - 1) div step]"

definition np_mean :: "real list \<Rightarrow> real" where
  "np_mean xs = sum_list xs / real (length xs)"

definition replace_Z :: "string \<Rightarrow> string" where
  \<comment> \<open>\<open>s.replace('Z', '+00:00')\<close>\<close>
  "replace_Z s = concat (map (\<lambda>c. if c = CHR ''Z'' then ''+00:00'' else [c]) s)"

definition daily_pattern :: "real list \<Rightarrow> real list" where
  "daily_pattern ac_values =
     map (\<lambda>i. let hour_values = map (\<lambda>j. ac_values ! j) (py_range_step i (length ac_values) 24)
               in if hour_values \<noteq> [] then np_mean hour_values else 0)
         [0 ..< min 24 (length ac_values)]"

definition predicted_for_day :: "(nat \<Rightarrow> real) \<Rightarrow> real list \<Rightarrow> nat \<Rightarrow> real" where
  "predicted_for_day rnd ac_values day =
     (let daily_total = sum_list (daily_pattern ac_values);
          recent_avg = (if length ac_values \<ge> 7 * 24
                        then np_mean (drop (length ac_values - 7 * 24) ac_values)
                        else np_mean ac_values);
          adjustment = 0.95 + (rnd day * 0.1)
      in daily_total * adjustment)"

text \<open>
  Two things come from outside the repository and are parameters: \<open>fromiso\<close>, the date
  that \<open>datetime.fromisoformat\<close> parses (\<open>None\<close> when it raises \<open>ValueError\<close>), and \<open>rnd\<close>,
  the value \<open>np.random.random()\<close> returns in the iteration for each day, a number in
  \<open>[0, 1)\<close>. A date is its ordinal, the day number that \<open>date.toordinal\<close> gives; the last
  date there is, 9999-12-31, has the ordinal \<open>date_max\<close>, and adding a \<open>timedelta\<close> that
  leads beyond it raises \<open>OverflowError\<close>.
\<close>

definition date_max :: int where
  "date_max = 3652059"

definition forecast_entry :: "int \<Rightarrow> (nat \<Rightarrow> real) \<Rightarrow> real list \<Rightarrow> nat \<Rightarrow> forecast_point" where
  "forecast_entry base_date rnd ac_values day =
     (let predicted = predicted_for_day rnd ac_values day
      in \<lparr>date = base_date + int day + 1,
          ac_kw_hat = py_round 2 (max 0 predicted),
          lower_bound = py_round 2 (max 0 (predicted * 0.85)),
          upper_bound = py_round 2 (predicted * 1.15)\<rparr>)"

fun forecast_loop ::
  "int \<Rightarrow> (nat \<Rightarrow> real) \<Rightarrow> real list \<Rightarrow> nat list \<Rightarrow> forecast_point list
   \<Rightarrow> exn + forecast_point list" where
  "forecast_loop base_date rnd ac_values [] forecast = Inr forecast"
| "forecast_loop base_date rnd ac_values (day # days) forecast =
     (if base_date + int day + 1 > date_max then Inl OverflowError
      else forecast_loop base_date rnd ac_values days
             (forecast @ [forecast_entry base_date rnd ac_values day]))"

definition simple_seasonal_forecast ::
  "(string \<Rightarrow> int option) \<Rightarrow> (nat \<Rightarrow> real) \<Rightarrow> TimeSeriesPoint list \<Rightarrow> int
   \<Rightarrow> exn + (forecast_point list \<times> real)" where
  "simple_seasonal_forecast fromiso rnd data forecast_days =
     (let ac_values = map ac_kw data
      in if data = [] then Inl IndexError
         else case fromiso (replace_Z (ts (last data))) of
                None \<Rightarrow> Inl ValueError
              | Some base_date \<Rightarrow>
                  (case forecast_loop base_date rnd ac_values [0 ..< nat forecast_days] [] of
                     Inl e \<Rightarrow> Inl e
                   | Inr forecast \<Rightarrow> Inr (forecast, 0.78)))"

subsection \<open>detect\_anomalies\_isolation\_forest\<close>

record AnomalyPoint =
  point_ts :: string
  actual :: real
  predicted :: real

record anomaly =
  start :: string
  end_ :: string
  score :: real
  type_ :: string
  magnitude :: real

text \<open>
  \<open>np.percentile(a, q)\<close> with numpy's default linear interpolation: the value at the
  fractional position \<open>(n - 1) * q / 100\<close> of the sorted data. It is only called on a
  non-empty list.
\<close>

definition np_percentile :: "real list \<Rightarrow> real \<Rightarrow> real" where
  "np_percentile a q =
     (let s = sort a; n = length s;
          h = real (n - 1) * (q / 100);
          lo = nat \<lfloor>h\<rfloor>;
          hi = min (lo + 1) (n - 1)
      in s ! lo + (h - real lo) * (s ! hi - s ! lo))"

definition iqr_threshold :: "real list \<Rightarrow> real" where
  "iqr_threshold res_values =
     (let q1 = np_percentile res_values 25;
          q3 = np_percentile res_values 75;
          iqr = q3 - q1
      in q3 + 1.5 * iqr)"

text \<open>
  The score divides by \<open>threshold * 2\<close>, a numpy float: when that is zero the quotient of
  the positive residual is \<open>inf\<close>, not an exception, and \<open>min(1.0, inf)\<close> is \<open>1.0\<close>.
\<close>

definition anomaly_score :: "real \<Rightarrow> real \<Rightarrow> real" where
  "anomaly_score residual threshold =
     (if threshold * 2 = 0 then 1.0 else min 1.0 (residual / (threshold * 2)))"

fun scan_residuals ::
  "real \<Rightarrow> AnomalyPoint list \<Rightarrow> anomaly list \<times> nat \<Rightarrow> anomaly list \<times> nat" where
  "scan_residuals threshold [] (anomalies, anomaly_count) = (anomalies, anomaly_count)"
| "scan_residuals threshold (point # rest) (anomalies, anomaly_count) =
     (let residual = \<bar>actual point - predicted point\<bar>
      in if residual > threshold then
           scan_residuals threshold rest
             (anomalies @
                [\<lparr>start = point_ts point, end_ = point_ts point,
                  score = py_round 3 (anomaly_score residual threshold),
                  type_ = ''statistical_outlier'',
                  magnitude = py_round 2 residual\<rparr>],
              anomaly_count + 1)
         else scan_residuals threshold rest (anomalies, anomaly_count))"

definition detect_anomalies_isolation_forest :: "AnomalyPoint list \<Rightarrow> anomaly list \<times> real" where
  "detect_anomalies_isolation_forest residuals =
     (let res_values = map (\<lambda>p. \<bar>actual p - predicted p\<bar>) residuals
      in if res_values = [] then ([], 0.0)
         else
           (let threshold = iqr_threshold res_values;
                (anomalies, anomaly_count) = scan_residuals threshold residuals ([], 0);
                anomaly_rate = (if residuals \<noteq> [] then real anomaly_count / real (length residuals)
                                else 0)
            in (anomalies, anomaly_rate)))"

subsection \<open>The endpoints\<close>

record ForecastResponse =
  forecast :: "forecast_point list"
  confidence :: real
  model_used :: string

record AnomalyResponse =
  anomalies :: "anomaly list"
  anomaly_rate :: real
  method_ :: string

text \<open>
  In both endpoints the length check raises inside the \<open>try\<close> block whose handler catches
  every \<open>Exception\<close>, so what leaves the endpoint is the handler's
  \<open>HTTPException(status_code=500, detail=str(e))\<close> around the exception raised.
\<close>

definition handle_exception :: "exn + 'a \<Rightarrow> exn + 'a" where
  "handle_exception r = (case r of Inl e \<Rightarrow> Inl (HTTPException 500 (Str e)) | Inr v \<Rightarrow> Inr v)"

definition insufficient_forecast_data :: exn where
  "insufficient_forecast_data = HTTPException 400 (Msg ''Need at least 24 hours of data'')"

definition insufficient_anomaly_data :: exn where
  "insufficient_anomaly_data = HTTPException 400 (Msg ''Need at least 7 data points'')"

definition forecast_power ::
  "(string \<Rightarrow> int option) \<Rightarrow> (nat \<Rightarrow> real) \<Rightarrow> TimeSeriesPoint list \<Rightarrow> int
   \<Rightarrow> exn + ForecastResponse" where
  "forecast_power fromiso rnd data forecast_days =
     handle_exception
       (if length data < 24 then Inl insufficient_forecast_data
        else case simple_seasonal_forecast fromiso rnd data forecast_days of
               Inl e \<Rightarrow> Inl e
             | Inr (fc, conf) \<Rightarrow>
                 Inr \<lparr>forecast = fc, confidence = conf, model_used = ''seasonal_pattern''\<rparr>)"

definition detect_anomalies :: "AnomalyPoint list \<Rightarrow> exn + AnomalyResponse" where
  "detect_anomalies residuals =
     handle_exception
       (if length residuals < 7 then Inl insufficient_anomaly_data
        else case detect_anomalies_isolation_forest residuals of
               (found, rate) \<Rightarrow>
                 Inr \<lparr>anomalies = found, anomaly_rate = py_round 3 rate,
                      method_ = ''iqr_statistical''\<rparr>)"

section \<open>Reference definitions taken from the specification\<close>

text \<open>The battery score as the specification words it: the three buckets alone.\<close>

definition battery_bucket :: "real \<Rightarrow> real" where
  "battery_bucket soc =
     (if 30 \<le> soc \<and> soc \<le> 80 then 100
      else if (20 \<le> soc \<and> soc < 30) \<or> (80 < soc \<and> soc \<le> 90) then 95
      else 85)"

text \<open>The fault score as the specification's table: one increment for each category.\<close>

definition deviation_increment :: "real \<Rightarrow> real" where
  "deviation_increment dev = (if \<bar>dev\<bar> > 20 then 0.4 else if \<bar>dev\<bar> > 10 then 0.2 else 0)"

definition panel_temp_increment :: "real \<Rightarrow> real" where
  "panel_temp_increment panel_temp =
     (if panel_temp > 75 then 0.3 else if panel_temp > 65 then 0.1 else 0)"

definition soiling_increment :: "real \<Rightarrow> real" where
  "soiling_increment soiling_index = (if soiling_index > 8.0 then 0.2 else 0)"

definition inverter_increment :: "real \<Rightarrow> real" where
  "inverter_increment inverter_eff = (if inverter_eff < 94.0 then 0.1 else 0)"

definition fault_score_sum :: "inputs \<Rightarrow> real \<Rightarrow> real" where
  "fault_score_sum inp dev =
     0 + deviation_increment dev +
     panel_temp_increment (get_num inp ''panel_temp'' 35) +
     soiling_increment (get_num inp ''soiling_index'' 2) +
     inverter_increment (get_num inp ''inverter_eff'' 96)"

text \<open>
  The deviation as the specification words it: the relative difference in per cent when an
  actual output is supplied and the predicted output is positive, otherwise 0.
\<close>

definition deviation_formula :: "real option \<Rightarrow> real \<Rightarrow> real" where
  "deviation_formula act p =
     (case act of
        Some a \<Rightarrow> if p > 0 then (a - p) / p * 100 else 0
      | None \<Rightarrow> 0)"

text \<open>The telemetry record of the specification's worked example.\<close>

definition example_inputs :: inputs where
  "example_inputs =
     [''irradiance'' \<mapsto> 915, ''ambient_temp'' \<mapsto> 32, ''panel_temp'' \<mapsto> 48,
      ''battery_soc'' \<mapsto> 72, ''inverter_eff'' \<mapsto> 96.4, ''soiling_index'' \<mapsto> 3.1,
      ''tilt'' \<mapsto> 30, ''azimuth'' \<mapsto> 180, ''wind_speed'' \<mapsto> 2.3,
      ''pr_baseline'' \<mapsto> 0.80, ''system_capacity'' \<mapsto> 100, ''actual_output'' \<mapsto> 62.4]"

text \<open>
  A record whose numeric fields are all non-negative, with a soiling index above 100, and
  one on which every threshold of the recommendation rules is crossed.
\<close>

definition soiled_inputs :: inputs where
  "soiled_inputs =
     [''irradiance'' \<mapsto> 1000, ''ambient_temp'' \<mapsto> 25,
      ''panel_temp'' \<mapsto> 25, ''soiling_index'' \<mapsto> 150]"

definition stressed_inputs :: inputs where
  "stressed_inputs =
     [''irradiance'' \<mapsto> 100, ''ambient_temp'' \<mapsto> 30, ''panel_temp'' \<mapsto> 80,
      ''soiling_index'' \<mapsto> 9, ''inverter_eff'' \<mapsto> 90, ''battery_soc'' \<mapsto> 5,
      ''actual_output'' \<mapsto> 1]"

text \<open>
  The residual of a point, and the record that the loop of the anomaly detector appends for
  a flagged point.
\<close>

definition residual_of :: "AnomalyPoint \<Rightarrow> real" where
  "residual_of p = \<bar>actual p - predicted p\<bar>"

definition outlier_record :: "real \<Rightarrow> AnomalyPoint \<Rightarrow> anomaly" where
  "outlier_record threshold p =
     \<lparr>start = point_ts p, end_ = point_ts p,
      score = py_round 3 (if threshold = 0 then 1
                          else min 1 (residual_of p / (threshold * 2))),
      type_ = ''statistical_outlier'',
      magnitude = py_round 2 (residual_of p)\<rparr>"

text \<open>
  Residual series: the magnitudes 1, 1, 1, 1, 1, 1, 10 of the specification's example, and
  3, 3, 3, 3, 3, 3, 4. A time series point with a given AC output, for flat series.
\<close>

definition example_residuals :: "AnomalyPoint list" where
  "example_residuals =
     map (\<lambda>(t, a). \<lparr>point_ts = t, actual = a, predicted = 0\<rparr>)
       [(''t0'', 1), (''t1'', 1), (''t2'', 1), (''t3'', 1), (''t4'', 1), (''t5'', 1), (''t6'', 10)]"

definition close_residuals :: "AnomalyPoint list" where
  "close_residuals =
     map (\<lambda>(t, a). \<lparr>point_ts = t, actual = a, predicted = 0\<rparr>)
       [(''t0'', 3), (''t1'', 3), (''t2'', 3), (''t3'', 3), (''t4'', 3), (''t5'', 3), (''t6'', 4)]"

definition flat_point :: "real \<Rightarrow> TimeSeriesPoint" where
  "flat_point x =
     \<lparr>ts = ''2024-06-01T12:00:00Z'', ghi_wm2 = 0, air_temp_c = 0, wind_ms = 0, ac_kw = x\<rparr>"

text \<open>
  The priority ranks as the specification gives them, Critical = 0, High = 1, Medium = 2 and
  Info = 3: the position of the label in that order.
\<close>

definition priority_rank :: "string \<Rightarrow> nat" where
  "priority_rank p = length (takeWhile (\<lambda>q. q \<noteq> p) [''Critical'', ''High'', ''Medium'', ''Info''])"

section \<open>Properties\<close>

lemmas thresholds_defs =
  panel_temp_high_def panel_temp_critical_def soiling_critical_def inverter_eff_low_def
  battery_soc_low_def battery_soc_critical_def deviation_warning_def deviation_critical_def

lemmas increment_defs =
  deviation_increment_def panel_temp_increment_def soiling_increment_def inverter_increment_def

lemma deviation_calculation_value:
  "deviation_calculation act p = Inr (deviation_formula act p)"
  by (simp add: deviation_calculation_def deviation_formula_def py_truediv_def Let_def
      split: option.splits)

lemma local_deviation_eq:
  "local_deviation inp =
     (let actual_output = inp ''actual_output'';
          predicted_output = local_predicted_output inp
      in case actual_output of
           None \<Rightarrow> 0
         | Some a \<Rightarrow>
             (if predicted_output > 0 then ((a - predicted_output) / predicted_output) * 100
              else 0))"
  by (simp add: local_deviation_def deviation_calculation_value deviation_formula_def Let_def
      split: option.splits)

lemmas local_defs =
  local_temp_correction_def local_soiling_factor_def local_inverter_factor_def
  local_irradiance_factor_def local_predicted_output_def local_deviation_eq

lemmas check_defs = panel_temperature_check_def soiling_check_def inverter_efficiency_check_def
  battery_soc_check_def performance_deviation_check_def low_irradiance_info_def

lemmas exn_defs =
  insufficient_forecast_data_def insufficient_anomaly_data_def handle_exception_def

subsection \<open>Rounding\<close>

lemma round_half_even_of_int [simp]: "round_half_even (of_int k) = k"
  by (simp add: round_half_even_def)

lemma round_half_even_bounds:
  "\<lfloor>y\<rfloor> \<le> round_half_even y \<and> round_half_even y \<le> \<lfloor>y\<rfloor> + 1"
  by (simp add: round_half_even_def Let_def)

lemma round_half_even_mono:
  assumes "a \<le> b"
  shows "round_half_even a \<le> round_half_even b"
proof (cases "\<lfloor>a\<rfloor> < \<lfloor>b\<rfloor>")
  case True
  have "round_half_even a \<le> \<lfloor>a\<rfloor> + 1"
    using round_half_even_bounds by blast
  also have "\<dots> \<le> \<lfloor>b\<rfloor>"
    using True by simp
  also have "\<dots> \<le> round_half_even b"
    using round_half_even_bounds by blast
  finally show ?thesis .
next
  case False
  with assms have e: "\<lfloor>a\<rfloor> = \<lfloor>b\<rfloor>"
    using floor_mono [of a b] by linarith
  show ?thesis
    using assms unfolding round_half_even_def Let_def e by auto
qed

lemma py_round_mono: "x \<le> y \<Longrightarrow> py_round n x \<le> py_round n y"
  unfolding py_round_def
  by (intro divide_right_mono round_half_even_mono mult_right_mono iffD2 [OF of_int_le_iff])
    simp_all

lemma py_round_of_int: "py_round n (of_int k) = of_int k"
proof -
  have e: "(of_int k :: real) * 10 ^ n = of_int (k * 10 ^ n)"
    by simp
  show ?thesis
    unfolding py_round_def e round_half_even_of_int by simp
qed

lemma py_round_scores [simp]:
  "py_round n 100 = 100" "py_round n 95 = 95" "py_round n 85 = 85"
  "py_round n 0 = 0" "py_round n 1 = 1"
  using py_round_of_int [of n 100] py_round_of_int [of n 95] py_round_of_int [of n 85]
    py_round_of_int [of n 0] py_round_of_int [of n 1]
  by simp_all

lemma py_round_nonneg: "0 \<le> x \<Longrightarrow> 0 \<le> py_round n x"
  using py_round_mono [of 0 x n] by simp

text \<open>The form of \<open>py_round\<close> that the simplifier evaluates on a numeral.\<close>

lemma py_round_eval:
  "py_round n x =
     (let y = x * 10 ^ n; f = \<lfloor>y\<rfloor>; d = y - of_int f
      in (if d < 1 / 2 then of_int f
          else if 1 / 2 < d then of_int (f + 1)
          else if even f then of_int f else of_int (f + 1)) / 10 ^ n)"
  by (simp add: py_round_def round_half_even_def Let_def)

subsection \<open>The fields of the prediction\<close>

lemma predict_output_fields:
  "predicted_output (predict_output inp) = py_round 2 (local_predicted_output inp)"
  "deviation (predict_output inp) = py_round 2 (local_deviation inp)"
  "fault_prob (predict_output inp) =
     py_round 3 (calculate_fault_probability inp (local_deviation inp))"
  "recommendations (predict_output inp) =
     generate_recommendations inp (local_deviation inp) (inp ''actual_output'')"
  "battery_health_score (predict_output inp) =
     calculate_battery_health (get_num inp ''battery_soc'' 70) inp"
  "temp_correction (metrics (predict_output inp)) = py_round 3 (local_temp_correction inp)"
  "soiling_factor (metrics (predict_output inp)) = py_round 3 (local_soiling_factor inp)"
  "inverter_factor (metrics (predict_output inp)) = py_round 3 (local_inverter_factor inp)"
  "irradiance_factor (metrics (predict_output inp)) = py_round 3 (local_irradiance_factor inp)"
  by (simp_all add: predict_output_def Let_def)

subsection \<open>The worked example\<close>

lemma example_locals:
  "local_temp_correction example_inputs = 0.908"
  "local_soiling_factor example_inputs = 0.969"
  "local_inverter_factor example_inputs = 0.964"
  "local_irradiance_factor example_inputs = 0.915"
  by (simp_all add: example_inputs_def local_defs get_num_def Let_def)

lemma example_predicted: "local_predicted_output example_inputs = 9701028189 / 156250000"
  unfolding local_predicted_output_def example_locals
  by (simp add: example_inputs_def get_num_def)

lemma example_deviation: "local_deviation example_inputs = 48971811 / 9701028189 * 100"
  unfolding local_deviation_eq example_predicted Let_def
  by (simp add: example_inputs_def)

lemma example_fault:
  "calculate_fault_probability example_inputs (local_deviation example_inputs) = 0"
  unfolding example_deviation
  by (simp add: calculate_fault_probability_def thresholds_defs Let_def example_inputs_def
      get_num_def)

lemma example_rounded:
  "py_round 3 (0.908) = 0.908" "py_round 3 (0.969) = 0.969" "py_round 3 (0.964) = 0.964"
  "py_round 3 (0.915) = 0.915" "py_round 2 (9701028189 / 156250000) = 62.09"
  "py_round 2 (48971811 / 9701028189 * 100) = 0.5"
  by (simp_all add: py_round_eval Let_def)

lemma example_battery:
  "calculate_battery_health (get_num example_inputs ''battery_soc'' 70) example_inputs = 100"
  by (simp add: example_inputs_def get_num_def calculate_battery_health_def Let_def)

text \<open>
  C1, as the code computes it. The product \<open>100 * 0.915 * 0.80 * 0.908 * 0.969 * 0.964\<close> is
  62.0865804096, so the analysis returns a predicted output of 62.09 and a deviation of 0.5
  per cent; the four correction factors, the fault probability 0 and the battery score 100
  are as the example gives them.
\<close>

theorem example_analysis:
  "temp_correction (metrics (predict_output example_inputs)) = 0.908 \<and>
   soiling_factor (metrics (predict_output example_inputs)) = 0.969 \<and>
   inverter_factor (metrics (predict_output example_inputs)) = 0.964 \<and>
   irradiance_factor (metrics (predict_output example_inputs)) = 0.915 \<and>
   predicted_output (predict_output example_inputs) = 62.09 \<and>
   deviation (predict_output example_inputs) = 0.5 \<and>
   fault_prob (predict_output example_inputs) = 0 \<and>
   battery_health_score (predict_output example_inputs) = 100"
proof -
  have "fault_prob (predict_output example_inputs) = 0"
    unfolding predict_output_fields example_fault by simp
  moreover have "deviation (predict_output example_inputs) = 0.5"
    unfolding predict_output_fields example_deviation example_rounded ..
  moreover have "predicted_output (predict_output example_inputs) = 62.09"
    unfolding predict_output_fields example_predicted example_rounded ..
  ultimately show ?thesis
    unfolding predict_output_fields example_locals example_rounded example_battery by simp
qed

text \<open>
  C1 as the specification states it fails: the predicted output is not within 1 kW of 60.09
  and the deviation is not within one percentage point of 3.85.
\<close>

theorem example_analysis_not_as_stated:
  "\<not> (\<bar>predicted_output (predict_output example_inputs) - 60.09\<bar> < 1 \<and>
      \<bar>deviation (predict_output example_inputs) - 3.85\<bar> < 1)"
  unfolding predict_output_fields example_predicted example_deviation example_rounded
  by simp

subsection \<open>Fault probability, battery score and deviation\<close>

text \<open>
  C4: the fault probability is \<open>min(1.0, s)\<close> for the sum \<open>s\<close> of the four independent
  increments of the table, each category contributing one of its mutually exclusive
  branches, and it lies between 0 and 1.
\<close>

theorem fault_probability_is_clamped_sum:
  "calculate_fault_probability inp dev = min 1.0 (fault_score_sum inp dev) \<and>
   0 \<le> calculate_fault_probability inp dev \<and> calculate_fault_probability inp dev \<le> 1"
  by (simp add: calculate_fault_probability_def fault_score_sum_def increment_defs
      thresholds_defs Let_def)

theorem fault_probability_witness:
  "calculate_fault_probability [''panel_temp'' \<mapsto> 80, ''soiling_index'' \<mapsto> 9] (-25) = 0.9"
  using fault_probability_is_clamped_sum
    [of "[''panel_temp'' \<mapsto> 80, ''soiling_index'' \<mapsto> 9]" "-25"]
  by (simp add: fault_score_sum_def increment_defs get_num_def)

text \<open>
  C5: the battery score of the source, with its initial \<open>health_score -= 10\<close> branch, is
  the bucket function of the specification for every state of charge, hence always one of
  85, 95 and 100.
\<close>

theorem battery_health_is_bucket:
  "calculate_battery_health soc inp = battery_bucket soc \<and>
   calculate_battery_health soc inp \<in> {85, 95, 100}"
  by (simp add: calculate_battery_health_def battery_bucket_def Let_def)

theorem battery_health_witness:
  "calculate_battery_health 97 Map.empty = 85 \<and> calculate_battery_health 25 Map.empty = 95"
  using battery_health_is_bucket [of 97 Map.empty] battery_health_is_bucket [of 25 Map.empty]
  by (simp add: battery_bucket_def)

text \<open>
  C8: the block that calculates the deviation never raises: for every actual output and
  every predicted output it returns the value of the specification's formula,
  \<open>(actual - predicted) / predicted * 100\<close> when an actual output is supplied and the
  predicted output is positive, and 0 otherwise. In particular a predicted output of 0
  gives the deviation 0 and no \<open>ZeroDivisionError\<close>. The rest of \<open>predict_output\<close> reads
  this value, and the result record carries it rounded to two decimals.
\<close>

theorem deviation_guarded:
  "deviation_calculation act p = Inr (deviation_formula act p) \<and>
   deviation_calculation act 0 = Inr 0 \<and>
   deviation_calculation (inp ''actual_output'') (local_predicted_output inp) =
     Inr (local_deviation inp) \<and>
   (\<forall>a. inp ''actual_output'' = Some a \<and> local_predicted_output inp > 0 \<longrightarrow>
        local_deviation inp =
          (a - local_predicted_output inp) / local_predicted_output inp * 100) \<and>
   (inp ''actual_output'' = None \<longrightarrow> local_deviation inp = 0) \<and>
   (local_predicted_output inp \<le> 0 \<longrightarrow> local_deviation inp = 0) \<and>
   deviation (predict_output inp) = py_round 2 (local_deviation inp)"
proof -
  have z: "deviation_calculation act 0 = Inr 0"
    by (simp add: deviation_calculation_value deviation_formula_def split: option.splits)
  have r: "deviation_calculation (inp ''actual_output'') (local_predicted_output inp) =
      Inr (local_deviation inp)"
    by (simp add: local_deviation_def deviation_calculation_value)
  show ?thesis
    unfolding z r
    by (simp add: deviation_calculation_value local_deviation_eq predict_output_fields Let_def
        split: option.splits)
qed

theorem deviation_guarded_witness:
  "deviation_calculation (Some 5) 0 = Inr 0 \<and>
   deviation_calculation (Some 5) (local_predicted_output [''irradiance'' \<mapsto> 0]) = Inr 0 \<and>
   deviation_calculation (Some 90) 60 = Inr 50 \<and>
   local_deviation [''irradiance'' \<mapsto> 0, ''actual_output'' \<mapsto> 5] = 0 \<and>
   local_deviation [''irradiance'' \<mapsto> 1000] = 0 \<and>
   local_deviation example_inputs =
     (62.4 - local_predicted_output example_inputs) / local_predicted_output example_inputs * 100"
proof -
  have p0: "local_predicted_output [''irradiance'' \<mapsto> 0, ''actual_output'' \<mapsto> 5] \<le> 0"
    by (simp add: local_defs get_num_def)
  have q0: "local_predicted_output [''irradiance'' \<mapsto> 0] = 0"
    by (simp add: local_defs get_num_def)
  have n: "[''irradiance'' \<mapsto> (1000::real)] ''actual_output'' = None"
    by simp
  have a: "example_inputs ''actual_output'' = Some 62.4 \<and>
      local_predicted_output example_inputs > 0"
    unfolding example_predicted by (simp add: example_inputs_def)
  from deviation_guarded [of "Some 5" 0]
  have 0: "deviation_calculation (Some 5) 0 = Inr 0"
    by blast
  from deviation_guarded [of "Some 90" 60]
  have 4: "deviation_calculation (Some 90) 60 = Inr 50"
    by (simp add: deviation_formula_def)
  from deviation_guarded [of _ _ "[''irradiance'' \<mapsto> 0, ''actual_output'' \<mapsto> 5]"] p0
  have 1: "local_deviation [''irradiance'' \<mapsto> 0, ''actual_output'' \<mapsto> 5] = 0"
    by blast
  from deviation_guarded [of _ _ "[''irradiance'' \<mapsto> 1000]"] n
  have 2: "local_deviation [''irradiance'' \<mapsto> 1000] = 0"
    by blast
  from deviation_guarded [of _ _ example_inputs] a
  have 3: "local_deviation example_inputs =
     (62.4 - local_predicted_output example_inputs) / local_predicted_output example_inputs * 100"
    by blast
  from 0 1 2 3 4 show ?thesis
    unfolding q0 by blast
qed

subsection \<open>Sign of the predicted output\<close>

lemma get_num_nonneg:
  "\<forall>k v. inp k = Some v \<longrightarrow> 0 \<le> v \<Longrightarrow> 0 \<le> d \<Longrightarrow> 0 \<le> get_num inp k d"
  by (simp add: get_num_def split: option.splits)

lemma local_temp_correction_range:
  "0.7 \<le> local_temp_correction inp \<and> local_temp_correction inp \<le> 1"
  by (simp add: local_temp_correction_def Let_def)

text \<open>
  C3, amended: when every numeric field that is present is non-negative and the soiling
  index is at most 100, the predicted output is non-negative, both the product of the
  formula and the rounded value in the result.
\<close>

theorem predicted_output_nonneg:
  assumes nonneg: "\<forall>k v. inp k = Some v \<longrightarrow> 0 \<le> v"
    and soiling: "get_num inp ''soiling_index'' 2.0 \<le> 100"
  shows "0 \<le> local_predicted_output inp \<and> 0 \<le> predicted_output (predict_output inp)"
proof -
  have t: "0 \<le> local_temp_correction inp"
    using local_temp_correction_range [of inp] by linarith
  have s: "0 \<le> local_soiling_factor inp"
    using soiling by (simp add: local_soiling_factor_def)
  have i: "0 \<le> local_inverter_factor inp"
    using get_num_nonneg [OF nonneg, of "96.0" "''inverter_eff''"]
    by (simp add: local_inverter_factor_def)
  have r: "0 \<le> local_irradiance_factor inp"
    using get_num_nonneg [OF nonneg, of 0 "''irradiance''"]
    by (simp add: local_irradiance_factor_def)
  have c: "0 \<le> get_num inp ''system_capacity'' 100"
    using get_num_nonneg [OF nonneg, of 100 "''system_capacity''"] by simp
  have p: "0 \<le> get_num inp ''pr_baseline'' 0.80"
    using get_num_nonneg [OF nonneg, of "0.80" "''pr_baseline''"] by simp
  have "0 \<le> local_predicted_output inp"
    unfolding local_predicted_output_def
    by (intro mult_nonneg_nonneg c r p t s i)
  then show ?thesis
    by (simp add: predict_output_fields py_round_nonneg)
qed

theorem predicted_output_nonneg_witness:
  "0 \<le> local_predicted_output example_inputs \<and> 0 \<le> predicted_output (predict_output example_inputs)"
proof -
  have a: "\<forall>k v. example_inputs k = Some v \<longrightarrow> 0 \<le> v"
    by (simp add: example_inputs_def)
  have b: "get_num example_inputs ''soiling_index'' 2.0 \<le> 100"
    by (simp add: example_inputs_def get_num_def)
  from predicted_output_nonneg [OF a b] show ?thesis .
qed

lemma soiled_predicted: "local_predicted_output soiled_inputs = - 38.4"
  by (simp add: local_defs soiled_inputs_def get_num_def Let_def)

text \<open>
  C3 as stated fails: with irradiance 1000, ambient and panel temperature 25 and a soiling
  index of 150, all non-negative, the soiling factor is negative and so is the prediction.
\<close>

theorem predicted_output_negative_example:
  "local_predicted_output soiled_inputs < 0 \<and>
   predicted_output (predict_output soiled_inputs) = - 38.4"
  unfolding predict_output_fields soiled_predicted
  by (simp add: py_round_eval)

subsection \<open>Recommendations\<close>

lemma check_lengths:
  "length (panel_temperature_check inp) \<le> 1"
  "length (soiling_check inp) \<le> 1"
  "length (inverter_efficiency_check inp) \<le> 1"
  "length (battery_soc_check inp) = 1"
  "length (performance_deviation_check dev act) \<le> 1"
  "length (low_irradiance_info inp) \<le> 1"
  by (simp_all add: check_defs Let_def)

lemma length_appended_recommendations:
  "length (appended_recommendations inp dev act) \<le> 6"
  using check_lengths(1-3,6) [of inp] check_lengths(4) [of inp] check_lengths(5) [of dev act]
  by (simp add: appended_recommendations_def)

lemma appended_nonempty: "1 \<le> length (appended_recommendations inp dev act)"
  using check_lengths(4) [of inp]
  by (simp add: appended_recommendations_def)

lemma generate_recommendations_sort:
  "generate_recommendations inp dev act =
     sort_key (\<lambda>x. priority_order (priority x)) (appended_recommendations inp dev act)"
  using length_appended_recommendations [of inp dev act]
  by (simp add: generate_recommendations_def Let_def)

lemma priority_rank_values:
  "priority_rank ''Critical'' = 0" "priority_rank ''High'' = 1"
  "priority_rank ''Medium'' = 2" "priority_rank ''Info'' = 3"
  by (simp_all add: priority_rank_def)

lemma priority_order_rank: "priority_order p = priority_rank p"
  by (simp add: priority_order_def priority_rank_def)

lemma check_priorities:
  "r \<in> set (panel_temperature_check inp) \<Longrightarrow> priority r \<in> {''Critical'', ''High'', ''Medium'', ''Info''}"
  "r \<in> set (soiling_check inp) \<Longrightarrow> priority r \<in> {''Critical'', ''High'', ''Medium'', ''Info''}"
  "r \<in> set (inverter_efficiency_check inp) \<Longrightarrow> priority r \<in> {''Critical'', ''High'', ''Medium'', ''Info''}"
  "r \<in> set (battery_soc_check inp) \<Longrightarrow> priority r \<in> {''Critical'', ''High'', ''Medium'', ''Info''}"
  "r \<in> set (performance_deviation_check dev act) \<Longrightarrow> priority r \<in> {''Critical'', ''High'', ''Medium'', ''Info''}"
  "r \<in> set (low_irradiance_info inp) \<Longrightarrow> priority r \<in> {''Critical'', ''High'', ''Medium'', ''Info''}"
  by (auto simp: check_defs Let_def split: if_splits)

lemma appended_priorities:
  "r \<in> set (appended_recommendations inp dev act) \<Longrightarrow>
   priority r \<in> {''Critical'', ''High'', ''Medium'', ''Info''}"
  unfolding appended_recommendations_def set_append Un_iff
  using check_priorities [of r] by blast

lemma sorted_key_split:
  fixes f :: "'a \<Rightarrow> nat"
  assumes "sorted (map f xs)"
  shows "xs = filter (\<lambda>x. f x < k) xs @ filter (\<lambda>x. k \<le> f x) xs"
  using assms
proof (induction xs)
  case Nil
  then show ?case by simp
next
  case (Cons x xs)
  then have le: "\<forall>y \<in> set xs. f x \<le> f y" and s: "sorted (map f xs)"
    by auto
  show ?case
  proof (cases "f x < k")
    case True
    with Cons.IH [OF s] show ?thesis by simp
  next
    case False
    with le have "\<forall>y \<in> set xs. \<not> f y < k" by auto
    then have "filter (\<lambda>x. f x < k) xs = []" "filter (\<lambda>x. k \<le> f x) xs = xs"
      by (auto simp: filter_empty_conv filter_id_conv)
    with False show ?thesis by simp
  qed
qed

lemma sorted_blocks:
  fixes f :: "'a \<Rightarrow> nat"
  assumes s: "sorted (map f xs)" and b: "\<forall>x \<in> set xs. f x \<le> 3"
  shows "xs = filter (\<lambda>x. f x = 0) xs @ filter (\<lambda>x. f x = 1) xs @
              filter (\<lambda>x. f x = 2) xs @ filter (\<lambda>x. f x = 3) xs"
proof -
  have step: "filter (\<lambda>x. a \<le> f x) xs =
      filter (\<lambda>x. f x = a) xs @ filter (\<lambda>x. Suc a \<le> f x) xs" for a
  proof -
    have "sorted (map f (filter (\<lambda>x. a \<le> f x) xs))"
      using s by (rule sorted_filter)
    from sorted_key_split [OF this, of "Suc a"]
    have "filter (\<lambda>x. a \<le> f x) xs =
        filter (\<lambda>x. a \<le> f x \<and> f x < Suc a) xs @ filter (\<lambda>x. a \<le> f x \<and> Suc a \<le> f x) xs"
      by (simp only: filter_filter)
    moreover have "filter (\<lambda>x. a \<le> f x \<and> f x < Suc a) xs = filter (\<lambda>x. f x = a) xs"
      by (rule filter_cong) auto
    moreover have "filter (\<lambda>x. a \<le> f x \<and> Suc a \<le> f x) xs = filter (\<lambda>x. Suc a \<le> f x) xs"
      by (rule filter_cong) auto
    ultimately show ?thesis by simp
  qed
  have all: "filter (\<lambda>x. 0 \<le> f x) xs = xs"
    by simp
  have last: "filter (\<lambda>x. 3 \<le> f x) xs = filter (\<lambda>x. f x = 3) xs"
    using b by (intro filter_cong) auto
  from step [of 0] step [of 1] step [of 2] all last show ?thesis
    by (simp add: numeral_2_eq_2 numeral_3_eq_3)
qed

lemma map_const_replicate: "\<forall>x \<in> set xs. g x = c \<Longrightarrow> map g xs = replicate (length xs) c"
  by (induction xs) auto

lemma priority_of_rank:
  assumes "p \<in> {''Critical'', ''High'', ''Medium'', ''Info''}"
  shows "priority_rank p \<le> 3"
    and "priority_rank p = 0 \<Longrightarrow> p = ''Critical''"
    and "priority_rank p = 1 \<Longrightarrow> p = ''High''"
    and "priority_rank p = 2 \<Longrightarrow> p = ''Medium''"
    and "priority_rank p = 3 \<Longrightarrow> p = ''Info''"
  using assms by (auto simp: priority_rank_def)

lemma generated_priorities:
  "r \<in> set (generate_recommendations inp dev act) \<Longrightarrow>
   priority r \<in> {''Critical'', ''High'', ''Medium'', ''Info''}"
  unfolding generate_recommendations_sort set_sort by (rule appended_priorities)

lemmas generated_rank = priority_of_rank [OF generated_priorities]

lemma block_label:
  assumes "\<And>r. r \<in> set G \<Longrightarrow> f r = k \<Longrightarrow> g r = c"
  shows "map g (filter (\<lambda>x. f x = k) G) = replicate (length (filter (\<lambda>x. f x = k) G)) c"
proof (rule map_const_replicate, rule ballI)
  fix x
  assume "x \<in> set (filter (\<lambda>x. f x = k) G)"
  then have "x \<in> set G" "f x = k"
    by simp_all
  then show "g x = c"
    by (rule assms)
qed

lemma generated_blocks:
  "\<exists>a b c d. map priority (generate_recommendations inp dev act) =
     replicate a ''Critical'' @ replicate b ''High'' @ replicate c ''Medium'' @ replicate d ''Info''"
proof -
  define G where "G = generate_recommendations inp dev act"
  define f :: "recommendation \<Rightarrow> nat" where "f = (\<lambda>x. priority_rank (priority x))"
  define B where "B = (\<lambda>k. filter (\<lambda>x. f x = k) G)"
  have s: "sorted (map f G)"
    unfolding G_def f_def generate_recommendations_sort priority_order_rank
    by (rule sorted_sort_key)
  have b: "\<forall>x \<in> set G. f x \<le> 3"
    unfolding G_def f_def by (rule ballI) (rule generated_rank(1))
  have m0: "map priority (B 0) = replicate (length (B 0)) ''Critical''"
    unfolding B_def by (rule block_label) (unfold G_def f_def, rule generated_rank(2))
  have m1: "map priority (B 1) = replicate (length (B 1)) ''High''"
    unfolding B_def by (rule block_label) (unfold G_def f_def, rule generated_rank(3))
  have m2: "map priority (B 2) = replicate (length (B 2)) ''Medium''"
    unfolding B_def by (rule block_label) (unfold G_def f_def, rule generated_rank(4))
  have m3: "map priority (B 3) = replicate (length (B 3)) ''Info''"
    unfolding B_def by (rule block_label) (unfold G_def f_def, rule generated_rank(5))
  have "G = B 0 @ B 1 @ B 2 @ B 3"
    unfolding B_def by (rule sorted_blocks [OF s b])
  then have "map priority G = map priority (B 0) @ map priority (B 1) @
      map priority (B 2) @ map priority (B 3)"
    by (metis map_append)
  then have "map priority G = replicate (length (B 0)) ''Critical'' @
      replicate (length (B 1)) ''High'' @ replicate (length (B 2)) ''Medium'' @
      replicate (length (B 3)) ''Info''"
    unfolding m0 m1 m2 m3 .
  then show ?thesis
    unfolding G_def by (intro exI)
qed

lemma stable_by_label:
  "filter (\<lambda>x. priority x = p) (generate_recommendations inp dev act) =
   filter (\<lambda>x. priority x = p) (appended_recommendations inp dev act)"
proof -
  let ?f = "\<lambda>x. priority_order (priority x)"
  have e: "filter (\<lambda>x. priority x = p) xs =
      filter (\<lambda>x. priority x = p) (filter (\<lambda>x. ?f x = priority_order p) xs)" for xs
    unfolding filter_filter by (rule filter_cong) auto
  show ?thesis
    unfolding generate_recommendations_sort
    by (subst e, subst sort_key_stable, subst e [symmetric]) (rule refl)
qed

text \<open>
  C7: the recommendations are sorted by the priority rank of the specification,
  Critical = 0, High = 1, Medium = 2, Info = 3: all Critical entries come first, then all
  High, then all Medium, then all Info. Entries of equal priority stand in the order in
  which the checks appended them, and the list has at most 6 entries. The result record
  carries this list.
\<close>

theorem recommendations_sorted_stable:
  "(\<exists>a b c d. map priority (generate_recommendations inp dev act) =
      replicate a ''Critical'' @ replicate b ''High'' @ replicate c ''Medium'' @
      replicate d ''Info'') \<and>
   sorted (map (\<lambda>x. priority_rank (priority x)) (generate_recommendations inp dev act)) \<and>
   priority_rank ''Critical'' = 0 \<and> priority_rank ''High'' = 1 \<and>
   priority_rank ''Medium'' = 2 \<and> priority_rank ''Info'' = 3 \<and>
   length (generate_recommendations inp dev act) \<le> 6 \<and>
   (\<forall>p. filter (\<lambda>x. priority x = p) (generate_recommendations inp dev act) =
        filter (\<lambda>x. priority x = p) (appended_recommendations inp dev act)) \<and>
   sorted (map (\<lambda>x. priority_order (priority x)) (generate_recommendations inp dev act)) \<and>
   (\<forall>k. filter (\<lambda>x. priority_order (priority x) = k) (generate_recommendations inp dev act) =
        filter (\<lambda>x. priority_order (priority x) = k) (appended_recommendations inp dev act)) \<and>
   recommendations (predict_output inp) =
     generate_recommendations inp (local_deviation inp) (inp ''actual_output'')"
proof -
  have s: "sorted (map (\<lambda>x. priority_order (priority x)) (generate_recommendations inp dev act))"
    unfolding generate_recommendations_sort by (rule sorted_sort_key)
  have l: "length (generate_recommendations inp dev act) \<le> 6"
    unfolding generate_recommendations_sort length_sort
    by (rule length_appended_recommendations)
  have k: "\<forall>k. filter (\<lambda>x. priority_order (priority x) = k) (generate_recommendations inp dev act) =
        filter (\<lambda>x. priority_order (priority x) = k) (appended_recommendations inp dev act)"
    unfolding generate_recommendations_sort by (simp add: sort_key_stable)
  from s have s': "sorted (map (\<lambda>x. priority_rank (priority x)) (generate_recommendations inp dev act))"
    unfolding priority_order_rank .
  from generated_blocks [of inp dev act] s' s l k stable_by_label [of _ inp dev act]
  show ?thesis
    by (simp add: priority_rank_values predict_output_fields)
qed

lemma stressed_length: "length (appended_recommendations stressed_inputs (-30) (Some 1)) = 6"
  by (simp add: appended_recommendations_def check_defs stressed_inputs_def get_num_def Let_def
      thresholds_defs)

lemma stressed_order:
  "map action (generate_recommendations stressed_inputs (-30) (Some 1)) =
     [''Inspect panels for hotspots, check ventilation, consider tilt adjustment'',
      ''Reduce load immediately or connect to grid if available'',
      ''Schedule panel cleaning service'',
      ''Comprehensive system inspection recommended'',
      ''Check inverter logs, inspect connections, verify AC voltage'',
      ''Normal for low-light conditions (dawn/dusk/cloudy)'']"
  by (simp add: generate_recommendations_sort appended_recommendations_def check_defs stressed_inputs_def get_num_def Let_def
      thresholds_defs priority_order_def low_irradiance_action_def)

lemma stressed_priority_order:
  "map priority (generate_recommendations stressed_inputs (-30) (Some 1)) =
     [''Critical'', ''Critical'', ''High'', ''High'', ''Medium'', ''Info'']"
  by (simp add: generate_recommendations_sort appended_recommendations_def check_defs
      stressed_inputs_def get_num_def Let_def thresholds_defs priority_order_def)

lemma stressed_labels:
  "map action (filter (\<lambda>x. priority x = ''Critical'')
      (appended_recommendations stressed_inputs (-30) (Some 1))) =
     [''Inspect panels for hotspots, check ventilation, consider tilt adjustment'',
      ''Reduce load immediately or connect to grid if available'']"
  "map action (filter (\<lambda>x. priority x = ''High'')
      (appended_recommendations stressed_inputs (-30) (Some 1))) =
     [''Schedule panel cleaning service'', ''Comprehensive system inspection recommended'']"
  by (simp_all add: appended_recommendations_def check_defs stressed_inputs_def get_num_def
      Let_def thresholds_defs)

theorem recommendations_sorted_stable_witness:
  "map priority (generate_recommendations stressed_inputs (-30) (Some 1)) =
     [''Critical'', ''Critical'', ''High'', ''High'', ''Medium'', ''Info''] \<and>
   sorted (map (\<lambda>x. priority_rank (priority x))
      (generate_recommendations stressed_inputs (-30) (Some 1))) \<and>
   length (generate_recommendations stressed_inputs (-30) (Some 1)) = 6 \<and>
   map action (filter (\<lambda>x. priority x = ''Critical'')
      (generate_recommendations stressed_inputs (-30) (Some 1))) =
     [''Inspect panels for hotspots, check ventilation, consider tilt adjustment'',
      ''Reduce load immediately or connect to grid if available''] \<and>
   map action (filter (\<lambda>x. priority x = ''High'')
      (generate_recommendations stressed_inputs (-30) (Some 1))) =
     [''Schedule panel cleaning service'', ''Comprehensive system inspection recommended'']"
proof -
  have l: "length (generate_recommendations stressed_inputs (-30) (Some 1)) = 6"
    by (simp add: generate_recommendations_sort stressed_length)
  from recommendations_sorted_stable [of stressed_inputs "-30" "Some 1"] l
    stressed_priority_order stressed_labels
  show ?thesis
    by simp
qed

subsection \<open>A missing irradiance field\<close>

lemma other_checks_action:
  "r \<in> set (panel_temperature_check inp) \<Longrightarrow> action r \<noteq> low_irradiance_action"
  "r \<in> set (soiling_check inp) \<Longrightarrow> action r \<noteq> low_irradiance_action"
  "r \<in> set (inverter_efficiency_check inp) \<Longrightarrow> action r \<noteq> low_irradiance_action"
  "r \<in> set (battery_soc_check inp) \<Longrightarrow> action r \<noteq> low_irradiance_action"
  "r \<in> set (performance_deviation_check dev act) \<Longrightarrow> action r \<noteq> low_irradiance_action"
  by (auto simp: check_defs Let_def low_irradiance_action_def split: if_splits)

lemma low_irradiance_only_from_info:
  "r \<in> set (panel_temperature_check inp @ soiling_check inp @ inverter_efficiency_check inp @
     battery_soc_check inp @ performance_deviation_check dev act) \<Longrightarrow> action r \<noteq> low_irradiance_action"
  using other_checks_action [of r] by auto

lemma low_irradiance_present:
  "(\<exists>r \<in> set (generate_recommendations inp dev act). action r = low_irradiance_action) \<longleftrightarrow>
   get_num inp ''irradiance'' 800 < 200"
proof -
  have s: "set (generate_recommendations inp dev act) =
     set (panel_temperature_check inp @ soiling_check inp @ inverter_efficiency_check inp @
     battery_soc_check inp @ performance_deviation_check dev act) \<union> set (low_irradiance_info inp)"
    unfolding generate_recommendations_sort by (simp add: appended_recommendations_def Un_assoc)
  show ?thesis
    unfolding s using low_irradiance_only_from_info [of _ inp dev act]
    by (auto simp: low_irradiance_info_def Let_def)
qed


text \<open>
  C10: when the irradiance field is absent, the predictor reads it as 0 and predicts 0,
  the recommendation rules read it as 800, and no low-irradiance recommendation is in the
  result. The single-site endpoint rejects such a record; the batch endpoint analyses it.
\<close>

theorem missing_irradiance_defaults:
  assumes "inp ''irradiance'' = None"
  shows "get_num inp ''irradiance'' 0 = 0 \<and> get_num inp ''irradiance'' 800 = 800 \<and>
    local_predicted_output inp = 0 \<and>
    predicted_output (predict_output inp) = 0 \<and>
    (\<forall>r \<in> set (recommendations (predict_output inp)). action r \<noteq> low_irradiance_action) \<and>
    analyze_performance (Some \<lparr>site_id = sid, site_inputs = Some inp\<rparr>) =
      Inl (''Missing required field: irradiance'', 400) \<and>
    batch_analyze (Some [\<lparr>site_id = sid, site_inputs = Some inp\<rparr>]) =
      Inr \<lparr>results = [\<lparr>result = predict_output inp,
                        result_site_id = (case sid of None \<Rightarrow> ''unknown'' | Some s \<Rightarrow> s),
                        status = Some ''success''\<rparr>],
           total = 1, successful = 1\<rparr>"
proof -
  have g: "get_num inp ''irradiance'' 0 = 0" "get_num inp ''irradiance'' 800 = 800"
    using assms by (simp_all add: get_num_def)
  have p: "local_predicted_output inp = 0"
    by (simp add: local_predicted_output_def local_irradiance_factor_def g)
  have r: "\<forall>r \<in> set (recommendations (predict_output inp)). action r \<noteq> low_irradiance_action"
    using low_irradiance_present [of inp "local_deviation inp" "inp ''actual_output''"] g(2)
    unfolding predict_output_fields by auto
  have a: "analyze_performance (Some \<lparr>site_id = sid, site_inputs = Some inp\<rparr>) =
      Inl (''Missing required field: irradiance'', 400)"
    using assms by (simp add: analyze_performance_def required_fields_def)
  have b: "batch_analyze (Some [\<lparr>site_id = sid, site_inputs = Some inp\<rparr>]) =
      Inr \<lparr>results = [\<lparr>result = predict_output inp,
                        result_site_id = (case sid of None \<Rightarrow> ''unknown'' | Some s \<Rightarrow> s),
                        status = Some ''success''\<rparr>],
           total = 1, successful = 1\<rparr>"
    by (simp add: batch_analyze_def Let_def)
  from g p r a b show ?thesis
    by (simp add: predict_output_fields)
qed

theorem missing_irradiance_witness:
  "predicted_output (predict_output Map.empty) = 0 \<and>
   map action (recommendations (predict_output Map.empty)) = [''Continue monitoring'']"
proof -
  have e: "(Map.empty :: inputs) ''irradiance'' = None" by simp
  have "map action (recommendations (predict_output Map.empty)) = [''Continue monitoring'']"
    unfolding predict_output_fields generate_recommendations_sort
    by (simp add: appended_recommendations_def check_defs get_num_def Let_def thresholds_defs
        local_deviation_eq)
  with missing_irradiance_defaults [OF e] show ?thesis by simp
qed

subsection \<open>The length checks of the endpoints\<close>

lemma forecast_loop_result:
  "forecast_loop b rnd ac ds acc = Inr fc \<Longrightarrow> fc = acc @ map (forecast_entry b rnd ac) ds"
proof (induction ds arbitrary: acc)
  case Nil
  then show ?case by simp
next
  case (Cons d ds)
  from Cons.prems
  have "forecast_loop b rnd ac ds (acc @ [forecast_entry b rnd ac d]) = Inr fc"
    by (simp split: if_splits)
  from Cons.IH [OF this] show ?case
    by simp
qed

lemma forecast_loop_error:
  "forecast_loop b rnd ac ds acc = Inl e \<Longrightarrow> e = OverflowError"
  by (induction ds arbitrary: acc) (auto split: if_splits)

lemma forecast_loop_succeeds:
  "\<forall>d \<in> set ds. b + int d + 1 \<le> date_max \<Longrightarrow>
   forecast_loop b rnd ac ds acc = Inr (acc @ map (forecast_entry b rnd ac) ds)"
  by (induction ds arbitrary: acc) auto

lemma forecast_loop_in_range:
  assumes "b + int (nat days) \<le> date_max"
  shows "forecast_loop b rnd ac [0 ..< nat days] [] =
    Inr (map (forecast_entry b rnd ac) [0 ..< nat days])"
proof -
  have "b + int d + 1 \<le> date_max" if "d < nat days" for d
    using that assms by linarith
  then have "\<forall>d \<in> set [0 ..< nat days]. b + int d + 1 \<le> date_max"
    by simp
  from forecast_loop_succeeds [OF this] show ?thesis
    by simp
qed

text \<open>
  What the length checks do: each endpoint ends with the status-500 exception around its
  own length error exactly when the input is too short. From 7 residuals on
  \<open>detect_anomalies\<close> returns a report; from 24 points on \<open>forecast_power\<close> returns a
  forecast when the last timestamp parses and the forecast dates do not pass the last date
  of the calendar.
\<close>

lemma length_checks_wrapped:
  "(forecast_power fromiso rnd data days = Inl (HTTPException 500 (Str insufficient_forecast_data))
      \<longleftrightarrow> length data < 24) \<and>
   (24 \<le> length data \<and> fromiso (replace_Z (ts (last data))) = Some base \<and>
    base + int (nat days) \<le> date_max \<longrightarrow>
      (\<exists>r. forecast_power fromiso rnd data days = Inr r)) \<and>
   (detect_anomalies residuals = Inl (HTTPException 500 (Str insufficient_anomaly_data))
      \<longleftrightarrow> length residuals < 7) \<and>
   (7 \<le> length residuals \<longrightarrow> (\<exists>r. detect_anomalies residuals = Inr r))"
proof -
  have f1: "forecast_power fromiso rnd data days = Inl (HTTPException 500 (Str insufficient_forecast_data))
      \<longleftrightarrow> length data < 24"
    by (auto simp: forecast_power_def simple_seasonal_forecast_def exn_defs Let_def
        dest: forecast_loop_error split: option.splits sum.splits prod.splits)
  have f2: "24 \<le> length data \<and> fromiso (replace_Z (ts (last data))) = Some base \<and>
    base + int (nat days) \<le> date_max \<longrightarrow>
      (\<exists>r. forecast_power fromiso rnd data days = Inr r)"
    by (auto simp: forecast_power_def simple_seasonal_forecast_def exn_defs Let_def
        forecast_loop_in_range)
  have d1: "detect_anomalies residuals = Inl (HTTPException 500 (Str insufficient_anomaly_data))
      \<longleftrightarrow> length residuals < 7"
    by (auto simp: detect_anomalies_def exn_defs split: prod.splits)
  have d2: "7 \<le> length residuals \<longrightarrow> (\<exists>r. detect_anomalies residuals = Inr r)"
    by (auto simp: detect_anomalies_def exn_defs split: prod.splits)
  from f1 f2 d1 d2 show ?thesis by blast
qed

lemma endpoints_never_400:
  "forecast_power fromiso rnd data days \<noteq> Inl insufficient_forecast_data"
  "detect_anomalies residuals \<noteq> Inl insufficient_anomaly_data"
  by (auto simp: forecast_power_def detect_anomalies_def exn_defs
      split: sum.splits prod.splits if_splits)

text \<open>
  C9: the code departs from the claim. On a series of 23 points \<open>forecast_power\<close> raises
  its \<open>HTTPException(400)\<close>, but inside the \<open>try\<close> block whose handler catches every
  \<open>Exception\<close>: what leaves the endpoint is a status-500 exception with the text of the
  first as detail, the status that a series of 24 points with an unparsable timestamp
  gets as well. \<open>detect_anomalies\<close> on 6 residuals does the same.
\<close>

theorem insufficient_data_leaves_as_500:
  "forecast_power (\<lambda>s. Some 0) (\<lambda>d. 1 / 2) (replicate 23 (flat_point 5)) 7 =
     Inl (HTTPException 500 (Str (HTTPException 400 (Msg ''Need at least 24 hours of data'')))) \<and>
   forecast_power (\<lambda>s. None) (\<lambda>d. 1 / 2) (replicate 24 (flat_point 5)) 7 =
     Inl (HTTPException 500 (Str ValueError)) \<and>
   detect_anomalies (take 6 example_residuals) =
     Inl (HTTPException 500 (Str (HTTPException 400 (Msg ''Need at least 7 data points''))))"
proof -
  have l: "length (take 6 example_residuals) < 7"
    by (simp add: example_residuals_def)
  have f: "forecast_power (\<lambda>s. Some 0) (\<lambda>d. 1 / 2) (replicate 23 (flat_point 5)) 7 =
     Inl (HTTPException 500 (Str insufficient_forecast_data))"
    by (simp add: length_checks_wrapped)
  have d: "detect_anomalies (take 6 example_residuals) =
     Inl (HTTPException 500 (Str insufficient_anomaly_data))"
    using l by (simp only: length_checks_wrapped)
  have v: "forecast_power (\<lambda>s. None) (\<lambda>d. 1 / 2) (replicate 24 (flat_point 5)) 7 =
     Inl (HTTPException 500 (Str ValueError))"
    by (simp add: forecast_power_def simple_seasonal_forecast_def handle_exception_def Let_def)
  from f d v show ?thesis
    unfolding insufficient_forecast_data_def insufficient_anomaly_data_def by simp
qed

subsection \<open>Anomaly detection\<close>

lemma scan_residuals_filter:
  "scan_residuals thr ps (acc, n) =
     (acc @ map (outlier_record thr) (filter (\<lambda>p. residual_of p > thr) ps),
      n + length (filter (\<lambda>p. residual_of p > thr) ps))"
proof (induction ps arbitrary: acc n)
  case Nil
  then show ?case by simp
next
  case (Cons p ps)
  show ?case
    by (simp add: Cons.IH Let_def residual_of_def outlier_record_def anomaly_score_def)
qed

lemma detect_nonempty:
  assumes "residuals \<noteq> []"
  shows "detect_anomalies_isolation_forest residuals =
     (let thr = iqr_threshold (map residual_of residuals);
          flagged = filter (\<lambda>p. residual_of p > thr) residuals
      in (map (outlier_record thr) flagged, real (length flagged) / real (length residuals)))"
proof -
  have m: "map (\<lambda>p. \<bar>actual p - predicted p\<bar>) residuals = map residual_of residuals"
    by (simp add: residual_of_def)
  show ?thesis
    using assms unfolding detect_anomalies_isolation_forest_def m
    by (simp add: Let_def scan_residuals_filter)
qed

lemma example_threshold: "iqr_threshold (map residual_of example_residuals) = 1"
  by (simp add: iqr_threshold_def np_percentile_def example_residuals_def residual_of_def Let_def)

lemma close_threshold: "iqr_threshold (map residual_of close_residuals) = 3"
  by (simp add: iqr_threshold_def np_percentile_def close_residuals_def residual_of_def Let_def)

lemma example_detection:
  "detect_anomalies_isolation_forest example_residuals =
     ([\<lparr>start = ''t6'', end_ = ''t6'', score = 1, type_ = ''statistical_outlier'',
        magnitude = 10\<rparr>], 1 / 7)"
proof -
  have n: "example_residuals \<noteq> []" by (simp add: example_residuals_def)
  show ?thesis
    unfolding detect_nonempty [OF n] example_threshold Let_def
    by (simp add: example_residuals_def residual_of_def outlier_record_def py_round_eval)
qed

lemma close_detection:
  "detect_anomalies_isolation_forest close_residuals =
     ([\<lparr>start = ''t6'', end_ = ''t6'', score = 0.667, type_ = ''statistical_outlier'',
        magnitude = 4\<rparr>], 1 / 7)"
proof -
  have n: "close_residuals \<noteq> []" by (simp add: close_residuals_def)
  show ?thesis
    unfolding detect_nonempty [OF n] close_threshold Let_def
    by (simp add: close_residuals_def residual_of_def outlier_record_def py_round_eval)
qed

text \<open>
  C6, amended: for at least 7 residual points the detector returns, in input order, one
  record for each point whose absolute residual exceeds \<open>Q3 + 1.5 * (Q3 - Q1)\<close>, with start
  and end equal to the point's timestamp and the score \<open>min(1.0, residual / (threshold * 2))\<close>
  rounded to three decimals (the score is 1 when the threshold is 0), and the anomaly rate
  is the number of flagged points over the number of points. For the magnitudes
  1, 1, 1, 1, 1, 1, 10 only the last point is flagged and the rate is 1/7.
\<close>

theorem anomalies_are_rounded_iqr_outliers:
  "(7 \<le> length residuals \<longrightarrow>
      detect_anomalies_isolation_forest residuals =
        (let thr = iqr_threshold (map residual_of residuals);
             flagged = filter (\<lambda>p. residual_of p > thr) residuals
         in (map (outlier_record thr) flagged,
             real (length flagged) / real (length residuals)))) \<and>
   iqr_threshold xs =
     np_percentile xs 75 + 1.5 * (np_percentile xs 75 - np_percentile xs 25) \<and>
   detect_anomalies_isolation_forest example_residuals =
     ([\<lparr>start = ''t6'', end_ = ''t6'', score = 1, type_ = ''statistical_outlier'',
        magnitude = 10\<rparr>], 1 / 7)"
proof -
  have "7 \<le> length residuals \<longrightarrow> residuals \<noteq> []"
    by auto
  then show ?thesis
    using detect_nonempty [of residuals] example_detection
    by (simp add: iqr_threshold_def Let_def)
qed

theorem anomalies_witness:
  "detect_anomalies_isolation_forest close_residuals =
     (map (outlier_record 3) [\<lparr>point_ts = ''t6'', actual = 4, predicted = 0\<rparr>], 1 / 7)"
proof -
  have l: "7 \<le> length close_residuals"
    by (simp add: close_residuals_def)
  have f: "filter (\<lambda>p. residual_of p > 3) close_residuals =
      [\<lparr>point_ts = ''t6'', actual = 4, predicted = 0\<rparr>]"
    by (simp add: close_residuals_def residual_of_def)
  have n: "length close_residuals = 7"
    by (simp add: close_residuals_def)
  from anomalies_are_rounded_iqr_outliers [of close_residuals] l
  show ?thesis
    unfolding close_threshold Let_def f n by simp
qed

text \<open>
  C6 as stated fails on the score: for the magnitudes 3, 3, 3, 3, 3, 3, 4 the threshold is 3
  and the flagged point carries 0.667, while \<open>min(1.0, 4 / (3 * 2))\<close> is 2/3.
\<close>

theorem anomaly_score_is_rounded:
  "detect_anomalies_isolation_forest close_residuals =
     ([\<lparr>start = ''t6'', end_ = ''t6'', score = 0.667, type_ = ''statistical_outlier'',
        magnitude = 4\<rparr>], 1 / 7) \<and>
   min 1.0 (residual_of (last close_residuals) /
            (iqr_threshold (map residual_of close_residuals) * 2)) = 2 / 3"
  unfolding close_detection close_threshold
  by (simp add: close_residuals_def residual_of_def)

subsection \<open>Seasonal forecast\<close>

lemma py_range_step_single:
  assumes "i < 24"
  shows "py_range_step i 24 24 = [i]"
proof -
  have "24 * Suc 1 = (48::nat)"
    by simp
  with assms have "24 * 1 \<le> 24 - i + 24 - 1" "24 - i + 24 - 1 < 24 * Suc 1"
    by linarith+
  then have c: "(24 - i + 24 - 1) div 24 = 1"
    by (rule div_nat_eqI)
  show ?thesis
    unfolding py_range_step_def c by simp
qed

lemma py_range_step_bound:
  assumes "j \<in> set (py_range_step i n 24)"
  shows "j < n"
proof -
  define m where "m = n - i + 24 - 1"
  from assms have "j \<in> (\<lambda>k. i + 24 * k) ` set [0 ..< m div 24]"
    unfolding py_range_step_def set_map m_def .
  then obtain k where k: "k \<in> set [0 ..< m div 24]" and j: "j = i + 24 * k"
    by (rule imageE)
  from k have "Suc k \<le> m div 24"
    by simp
  then have "Suc k * 24 \<le> m"
    by (simp only: less_eq_div_iff_mult_less_eq [of 24] zero_less_numeral)
  then have "24 * k + 24 \<le> n - i + 23"
    unfolding m_def by simp
  with j show ?thesis
    by linarith
qed

lemma np_mean_nonneg: "\<forall>x \<in> set xs. 0 \<le> x \<Longrightarrow> 0 \<le> np_mean xs"
  by (simp add: np_mean_def sum_list_nonneg)

lemma daily_pattern_nonneg:
  assumes "\<forall>x \<in> set ac. 0 \<le> x"
  shows "\<forall>y \<in> set (daily_pattern ac). 0 \<le> y"
proof -
  have "0 \<le> np_mean (map ((!) ac) (py_range_step i (length ac) 24))" for i
    using assms py_range_step_bound [of _ i "length ac"]
    by (intro np_mean_nonneg) (auto simp: all_set_conv_all_nth)
  then show ?thesis
    by (auto simp: daily_pattern_def Let_def)
qed

lemma predicted_for_day_nonneg:
  assumes "\<forall>x \<in> set ac. 0 \<le> x" and "0 \<le> rnd day"
  shows "0 \<le> predicted_for_day rnd ac day"
proof -
  have "0 \<le> sum_list (daily_pattern ac)"
    using daily_pattern_nonneg [OF assms(1)] by (simp add: sum_list_nonneg)
  moreover have "0 \<le> 0.95 + rnd day * 0.1"
    using assms(2) by simp
  ultimately show ?thesis
    by (simp add: predicted_for_day_def Let_def)
qed

lemma daily_pattern_one_day: "length ac = 24 \<Longrightarrow> daily_pattern ac = ac"
  by (rule nth_equalityI) (simp_all add: daily_pattern_def py_range_step_single np_mean_def Let_def)


lemma flat_series_predicted:
  "predicted_for_day rnd (replicate 24 x) day = 24 * x * (0.95 + rnd day * 0.1)"
  by (simp add: predicted_for_day_def daily_pattern_one_day sum_list_replicate Let_def)

lemma flat_series_forecast:
  "simple_seasonal_forecast (\<lambda>s. Some 0) rnd (replicate 24 (flat_point x)) 1 =
     Inr ([\<lparr>date = 1,
            ac_kw_hat = py_round 2 (max 0 (24 * x * (0.95 + rnd 0 * 0.1))),
            lower_bound = py_round 2 (max 0 (24 * x * (0.95 + rnd 0 * 0.1) * 0.85)),
            upper_bound = py_round 2 (24 * x * (0.95 + rnd 0 * 0.1) * 1.15)\<rparr>], 0.78)"
proof -
  have m: "map ac_kw (replicate 24 (flat_point x)) = replicate 24 x"
    by (simp add: flat_point_def)
  have l: "forecast_loop 0 rnd (replicate 24 x) [0 ..< nat 1] [] =
      Inr (map (forecast_entry 0 rnd (replicate 24 x)) [0 ..< nat 1])"
    by (rule forecast_loop_in_range) (simp add: date_max_def)
  show ?thesis
    unfolding simple_seasonal_forecast_def m Let_def l
    by (simp add: forecast_entry_def flat_series_predicted date_max_def)
qed

lemma forecast_points:
  assumes "simple_seasonal_forecast fromiso rnd data days = Inr (fc, conf)"
  shows "length fc = nat days \<and> conf = 0.78 \<and>
    (\<forall>i < length fc.
       ac_kw_hat (fc ! i) = py_round 2 (max 0 (predicted_for_day rnd (map ac_kw data) i)) \<and>
       lower_bound (fc ! i) =
         py_round 2 (max 0 (predicted_for_day rnd (map ac_kw data) i * 0.85)) \<and>
       upper_bound (fc ! i) = py_round 2 (predicted_for_day rnd (map ac_kw data) i * 1.15))"
  using assms
  by (auto simp: simple_seasonal_forecast_def forecast_entry_def Let_def
      dest!: forecast_loop_result split: if_splits option.splits sum.splits)

text \<open>
  What holds of every forecast point: it has the predicted value \<open>round(max(0, p), 2)\<close>
  and the lower bound \<open>round(max(0, p * 0.85), 2)\<close> for the day's
  \<open>p = daily_total * adjustment\<close>; both are non-negative and the lower bound is at most the
  predicted value. When \<open>p\<close> is non-negative, as it is when no AC value of the series is
  negative, the upper bound \<open>round(p * 1.15, 2)\<close> is at least the predicted value.
\<close>

lemma forecast_bounds:
  assumes "24 \<le> length data"
    and "simple_seasonal_forecast fromiso rnd data days = Inr (fc, conf)"
    and "i < length fc"
  shows "let p = predicted_for_day rnd (map ac_kw data) i; pt = fc ! i
    in ac_kw_hat pt = py_round 2 (max 0 p) \<and>
       lower_bound pt = py_round 2 (max 0 (p * 0.85)) \<and>
       0 \<le> ac_kw_hat pt \<and> 0 \<le> lower_bound pt \<and> lower_bound pt \<le> ac_kw_hat pt \<and>
       (0 \<le> p \<longrightarrow>
          upper_bound pt = py_round 2 (p * 1.15) \<and> ac_kw_hat pt \<le> upper_bound pt) \<and>
       ((\<forall>q \<in> set data. 0 \<le> ac_kw q) \<and> 0 \<le> rnd i \<longrightarrow> 0 \<le> p)"
proof -
  define p where "p = predicted_for_day rnd (map ac_kw data) i"
  from forecast_points [OF assms(2)] assms(3)
  have h: "ac_kw_hat (fc ! i) = py_round 2 (max 0 p)"
    and l: "lower_bound (fc ! i) = py_round 2 (max 0 (p * 0.85))"
    and u: "upper_bound (fc ! i) = py_round 2 (p * 1.15)"
    unfolding p_def by blast+
  have "max 0 (p * 0.85) \<le> max 0 p"
    by (cases "0 \<le> p") (simp_all add: max_def mult_le_0_iff)
  then have lh: "py_round 2 (max 0 (p * 0.85)) \<le> py_round 2 (max 0 p)"
    by (rule py_round_mono)
  have hu: "py_round 2 (max 0 p) \<le> py_round 2 (p * 1.15)" if "0 \<le> p"
    using that by (intro py_round_mono) simp
  have nn: "0 \<le> p" if "\<forall>q \<in> set data. 0 \<le> ac_kw q" "0 \<le> rnd i"
    unfolding p_def using that by (intro predicted_for_day_nonneg) auto
  show ?thesis
    unfolding Let_def p_def [symmetric] h l u
    using lh hu nn by (simp add: py_round_nonneg)
qed

lemma forecast_bounds_example:
  "simple_seasonal_forecast (\<lambda>s. Some 0) (\<lambda>d. 1 / 2) (replicate 24 (flat_point 5)) 1 =
     Inr ([\<lparr>date = 1, ac_kw_hat = 120, lower_bound = 102, upper_bound = 138\<rparr>], 0.78) \<and>
   (let p = predicted_for_day (\<lambda>d. 1 / 2) (map ac_kw (replicate 24 (flat_point 5))) 0;
        pt = \<lparr>date = 1, ac_kw_hat = 120, lower_bound = 102, upper_bound = 138\<rparr>
    in ac_kw_hat pt = py_round 2 (max 0 p) \<and>
       lower_bound pt = py_round 2 (max 0 (p * 0.85)) \<and>
       0 \<le> ac_kw_hat pt \<and> 0 \<le> lower_bound pt \<and> lower_bound pt \<le> ac_kw_hat pt \<and>
       upper_bound pt = py_round 2 (p * 1.15) \<and> ac_kw_hat pt \<le> upper_bound pt \<and> 0 \<le> p)"
proof -
  let ?data = "replicate 24 (flat_point 5)"
  let ?fc = "[\<lparr>date = 1, ac_kw_hat = 120, lower_bound = 102, upper_bound = 138\<rparr>]"
  have r: "simple_seasonal_forecast (\<lambda>s. Some 0) (\<lambda>d. 1 / 2) ?data 1 = Inr (?fc, 0.78)"
    unfolding flat_series_forecast by (simp add: py_round_eval)
  have n: "24 \<le> length ?data" "0 < length ?fc"
    by simp_all
  have q: "(\<forall>q \<in> set ?data. 0 \<le> ac_kw q) \<and> 0 \<le> (1 / 2 :: real)"
    by (simp add: flat_point_def)
  have t: "let p = predicted_for_day (\<lambda>d. 1 / 2) (map ac_kw ?data) 0; pt = ?fc ! 0
    in ac_kw_hat pt = py_round 2 (max 0 p) \<and>
       lower_bound pt = py_round 2 (max 0 (p * 0.85)) \<and>
       0 \<le> ac_kw_hat pt \<and> 0 \<le> lower_bound pt \<and> lower_bound pt \<le> ac_kw_hat pt \<and>
       (0 \<le> p \<longrightarrow>
          upper_bound pt = py_round 2 (p * 1.15) \<and> ac_kw_hat pt \<le> upper_bound pt) \<and>
       ((\<forall>q \<in> set ?data. 0 \<le> ac_kw q) \<and> 0 \<le> (1 / 2 :: real) \<longrightarrow> 0 \<le> p)"
    by (rule forecast_bounds [OF n(1) r n(2)])
  from t q r show ?thesis
    unfolding Let_def nth_Cons_0 by blast
qed

text \<open>
  C2: the code departs from the claim. The predicted value and the lower bound are clamped
  with \<open>max(0, .)\<close>, the upper bound is not: it is computed from the unclamped \<open>p\<close>. For
  24 points with an AC output of -1 and a random draw of 0.123, \<open>p * 1.15\<close> is -26.55948
  and the forecast point has predicted value 0, lower bound 0 and upper bound -26.56,
  which is negative and below the predicted value.
\<close>

theorem forecast_upper_bound_negative:
  "simple_seasonal_forecast (\<lambda>s. Some 0) (\<lambda>d. 0.123) (replicate 24 (flat_point (- 1))) 1 =
     Inr ([\<lparr>date = 1, ac_kw_hat = 0, lower_bound = 0, upper_bound = - 26.56\<rparr>], 0.78) \<and>
   predicted_for_day (\<lambda>d. 0.123) (map ac_kw (replicate 24 (flat_point (- 1)))) 0 * 1.15
     = - 26.55948"
proof -
  have m: "map ac_kw (replicate 24 (flat_point (- 1))) = replicate 24 (- 1)"
    by (simp add: flat_point_def)
  show ?thesis
    unfolding flat_series_forecast m flat_series_predicted
    by (simp add: py_round_eval)
qed

end
